theory Spec2Isabelle
  imports
    Complex_Main
    "HOL-Library.Char_ord"
    "HOL-Library.List_Lexorder"
    "HOL-Library.AList"
begin

section \<open>The MEXC client of \<open>mexc_client.py\<close>\<close>

text \<open>
  The client signs a query, sends it, and pages through a date range. Python strings are
  modelled by their UTF-8 bytes (\<^typ>\<open>string\<close>); the order on keys is the
  lexicographic order on bytes, which is Python's order on code points. A Python
  \<open>dict\<close> is the list of its items in insertion order; its keys are distinct.
  What the standard library and \<open>requests\<close> do is written out where the client
  depends on it (\<open>urlencode\<close>, \<open>raise_for_status\<close>); the HMAC digest, the clock
  and the network are parameters.
\<close>

subsection \<open>Request parameters and \<open>urllib.parse.urlencode\<close>\<close>

datatype pval = PStr string | PInt int

type_synonym params = "(string \<times> pval) list"

definition digit_char :: "nat \<Rightarrow> char" where
  "digit_char d = ''0123456789'' ! d"

fun str_nat :: "nat \<Rightarrow> string" where
  "str_nat n = (if n < 10 then [digit_char n] else str_nat (n div 10) @ [digit_char (n mod 10)])"

declare str_nat.simps [simp del]

definition str_int :: "int \<Rightarrow> string" where
  "str_int i = (if i < 0 then CHR ''-'' # str_nat (nat (- i)) else str_nat (nat i))"

text \<open>\<open>str(v)\<close> of a parameter value.\<close>

fun str_pval :: "pval \<Rightarrow> string" where
  "str_pval (PStr s) = s"
| "str_pval (PInt i) = str_int i"

definition always_safe :: string where
  "always_safe = ''ABCDEFGHIJKLMNOPQRSTUVWXYZabcdefghijklmnopqrstuvwxyz0123456789_.-~''"

definition hex_digit :: "nat \<Rightarrow> char" where
  "hex_digit d = ''0123456789ABCDEF'' ! d"

text \<open>
  \<open>quote_plus\<close> with no extra safe characters, one byte at a time: an unreserved
  byte stays, a space becomes \<open>+\<close>, any other byte becomes \<open>%XX\<close>.
\<close>

definition quote_byte :: "char \<Rightarrow> string" where
  "quote_byte c =
     (if c \<in> set always_safe then [c]
      else if c = CHR '' '' then ''+''
      else [CHR ''%'', hex_digit (of_char c div 16), hex_digit (of_char c mod 16)])"

definition quote_plus :: "string \<Rightarrow> string" where
  "quote_plus s = concat (map quote_byte s)"

fun join :: "string \<Rightarrow> string list \<Rightarrow> string" where
  "join sep [] = []"
| "join sep [x] = x"
| "join sep (x # y # ys) = x @ sep @ join sep (y # ys)"

definition urlencode :: "params \<Rightarrow> string" where
  "urlencode query =
     join ''&'' (map (\<lambda>(k, v). quote_plus k @ ''='' @ quote_plus (str_pval v)) query)"

subsection \<open>The client and its transport\<close>

record mexc_client =
  api_key :: string
  secret_key :: string

datatype exn =
  ValueError | HTTPError | RequestException | JSONDecodeError | TypeError | AttributeError
  | OverflowError

definition BASE_URL :: string where
  "BASE_URL = ''https://api.mexc.com''"

definition mexc_client_init :: "string \<Rightarrow> string \<Rightarrow> exn + mexc_client" where
  "mexc_client_init ak sk =
     (if ak = [] \<or> sk = [] then Inl ValueError
      else Inr \<lparr>api_key = ak, secret_key = sk\<rparr>)"

definition headers :: "mexc_client \<Rightarrow> (string \<times> string) list" where
  "headers self = [(''X-MEXC-APIKEY'', api_key self), (''Content-Type'', ''application/json'')]"

text \<open>
  A decoded JSON value as Python holds it; \<open>JNone\<close> is \<open>None\<close>, a \<open>JDict\<close> lists
  the items of a \<open>dict\<close>. JSON numbers with a fraction are left out: in the code below
  they behave as \<open>JInt\<close> does (true unless zero, not a container).
\<close>

datatype json =
  JNone | JBool bool | JInt int | JStr string | JList "json list" | JDict "(string \<times> json) list"

text \<open>
  What \<open>requests.request\<close> hands back: it raises (connection error, timeout, ...) or
  returns a response, of which the client reads the status code and the decoded body
  (\<open>None\<close> when \<open>response.json()\<close> raises).
\<close>

record response =
  status_code :: int
  json_body :: "json option"

datatype transport = RequestFailed | Responded response

type_synonym requests_request = "string \<Rightarrow> string \<Rightarrow> (string \<times> string) list \<Rightarrow> transport"

text \<open>\<open>Response.raise_for_status\<close> raises \<open>HTTPError\<close> on a 4xx or 5xx status only.\<close>

definition raise_for_status :: "response \<Rightarrow> bool" where
  "raise_for_status r = (400 \<le> status_code r \<and> status_code r < 600)"

text \<open>The \<open>hmac.new(key, msg, sha256).hexdigest()\<close> of a key and a message.\<close>

type_synonym hexdigest = "string \<Rightarrow> string \<Rightarrow> string"

definition generate_signature :: "hexdigest \<Rightarrow> mexc_client \<Rightarrow> params \<Rightarrow> string" where
  "generate_signature hmac_hexdigest self ps =
     (let query_string = urlencode ps
      in hmac_hexdigest (secret_key self) query_string)"

text \<open>The body of the \<open>try\<close> of \<open>_send_request\<close>: every raise is an \<open>Inl\<close>.\<close>

definition try_request ::
  "requests_request \<Rightarrow> mexc_client \<Rightarrow> string \<Rightarrow> string \<Rightarrow> exn + json" where
  "try_request request self method u =
     (case request method u (headers self) of
        RequestFailed \<Rightarrow> Inl RequestException
      | Responded r \<Rightarrow>
          if raise_for_status r then Inl HTTPError
          else (case json_body r of None \<Rightarrow> Inl JSONDecodeError | Some j \<Rightarrow> Inr j))"

datatype log_line = HttpErrorOccurred | OtherErrorOccurred | UnexpectedFormat json

text \<open>
  \<open>_send_request\<close>. \<open>now_ms\<close> is \<open>int(time.time() * 1000)\<close>. The result keeps,
  beside the returned value, what the call leaves behind: the caller's dict after the
  call (it is the object \<open>params['timestamp'] = ...\<close> writes to), the parameters and
  the URL that are sent, and the lines printed.
\<close>

record send_result =
  caller_params :: "params option"
  sent_params :: params
  url :: string
  logged :: "log_line list"
  returned :: json

definition send_request ::
  "hexdigest \<Rightarrow> requests_request \<Rightarrow> mexc_client \<Rightarrow> int \<Rightarrow> string \<Rightarrow> string \<Rightarrow> params option
     \<Rightarrow> send_result" where
  "send_request hmac_hexdigest request self now_ms method endpoint params_arg =
     (let params0 = (case params_arg of None \<Rightarrow> [] | Some p \<Rightarrow> p);
          params1 = AList.update ''timestamp'' (PInt now_ms) params0;
          sorted_params = sort_key fst params1;
          signature = generate_signature hmac_hexdigest self sorted_params;
          sorted_params1 = AList.update ''signature'' (PStr signature) sorted_params;
          u = BASE_URL @ endpoint @ ''?'' @ urlencode sorted_params1;
          caller = (case params_arg of None \<Rightarrow> None | Some p \<Rightarrow> Some params1)
      in case try_request request self method u of
           Inr j \<Rightarrow>
             \<lparr>caller_params = caller, sent_params = sorted_params1, url = u,
              logged = [], returned = j\<rparr>
         | Inl e \<Rightarrow>
             \<lparr>caller_params = caller, sent_params = sorted_params1, url = u,
              logged = [if e = HTTPError then HttpErrorOccurred else OtherErrorOccurred],
              returned = JNone\<rparr>)"

subsection \<open>The range paginator\<close>

text \<open>
  A \<open>datetime\<close> is a number of microseconds since \<open>datetime.min\<close>
  (0001-01-01 00:00:00), up to \<open>datetime.max\<close> (9999-12-31 23:59:59.999999).
  \<open>timestamp_ms\<close> below stands for \<open>int(d.timestamp() * 1000)\<close>, which depends on
  the local time zone and on floating point.
\<close>

definition us_per_day :: int where
  "us_per_day = 86400000000"

definition datetime_max :: int where
  "datetime_max = 3652059 * us_per_day - 1"

typedef datetime = "{0..datetime_max}"
  morphisms us datetime_of_us
  by (auto simp: datetime_max_def us_per_day_def)

text \<open>
  \<open>timedelta(days=n)\<close>, in microseconds; it raises \<open>OverflowError\<close> when the
  magnitude of \<open>n\<close> is above 999999999.
\<close>

definition timedelta_days :: "int \<Rightarrow> exn + int" where
  "timedelta_days n = (if 999999999 < \<bar>n\<bar> then Inl OverflowError else Inr (n * us_per_day))"

text \<open>
  A datetime plus a timedelta; it raises \<open>OverflowError\<close> when the sum is not a
  datetime.
\<close>

definition datetime_add :: "int \<Rightarrow> int \<Rightarrow> exn + int" where
  "datetime_add d delta =
     (if d + delta < 0 \<or> datetime_max < d + delta then Inl OverflowError else Inr (d + delta))"

text \<open>\<open>d + timedelta(days=n)\<close>: the timedelta is built first, then added.\<close>

definition plus_days :: "int \<Rightarrow> int \<Rightarrow> exn + int" where
  "plus_days d n = (case timedelta_days n of Inl e \<Rightarrow> Inl e | Inr delta \<Rightarrow> datetime_add d delta)"

text \<open>Python's truth value of a decoded response.\<close>

fun truthy :: "json \<Rightarrow> bool" where
  "truthy JNone = False"
| "truthy (JBool b) = b"
| "truthy (JInt i) = (i \<noteq> 0)"
| "truthy (JStr s) = (s \<noteq> [])"
| "truthy (JList xs) = (xs \<noteq> [])"
| "truthy (JDict d) = (d \<noteq> [])"

fun isinstance_list :: "json \<Rightarrow> bool" where
  "isinstance_list (JList xs) = True"
| "isinstance_list v = False"

fun substring :: "string \<Rightarrow> string \<Rightarrow> bool" where
  "substring xs [] = (xs = [])"
| "substring xs (y # ys) = (take (length xs) (y # ys) = xs \<or> substring xs ys)"

text \<open>
  \<open>'rows' in response_data\<close>: a key of a dict, a substring of a string, an element
  of a list; on a number, a boolean or \<open>None\<close> it raises \<open>TypeError\<close>.
\<close>

fun rows_in :: "json \<Rightarrow> exn + bool" where
  "rows_in (JDict d) = Inr (''rows'' \<in> set (map fst d))"
| "rows_in (JStr s) = Inr (substring ''rows'' s)"
| "rows_in (JList xs) = Inr (JStr ''rows'' \<in> set xs)"
| "rows_in v = Inl TypeError"

text \<open>\<open>response_data.get('rows')\<close>: only a dict has the method.\<close>

fun get_rows :: "json \<Rightarrow> exn + json" where
  "get_rows (JDict d) = Inr (case map_of d ''rows'' of None \<Rightarrow> JNone | Some v \<Rightarrow> v)"
| "get_rows v = Inl AttributeError"

text \<open>
  The state of the loop of \<open>fetch_historical_data\<close>: its two variables (the cursor
  in microseconds), and what it does to the world (the windows it has called the fetch
  operation with, the warnings it has printed).
\<close>

record fetch_state =
  current_start :: int
  all_results :: "json list"
  calls :: "(int \<times> int) list"
  printed :: "log_line list"

text \<open>What one iteration does with the response of its chunk (\<open>if response_data: ...\<close>).\<close>

definition absorb_page :: "json \<Rightarrow> fetch_state \<Rightarrow> exn + fetch_state" where
  "absorb_page response_data st =
     (if truthy response_data then
        (case response_data of
           JList xs \<Rightarrow> Inr (st\<lparr>all_results := all_results st @ xs\<rparr>)
         | _ \<Rightarrow>
           (case rows_in response_data of
              Inl e \<Rightarrow> Inl e
            | Inr False \<Rightarrow> Inr (st\<lparr>printed := printed st @ [UnexpectedFormat response_data]\<rparr>)
            | Inr True \<Rightarrow>
               (case get_rows response_data of
                  Inl e \<Rightarrow> Inl e
                | Inr (JList rows) \<Rightarrow> Inr (st\<lparr>all_results := all_results st @ rows\<rparr>)
                | Inr _ \<Rightarrow>
                    Inr (st\<lparr>printed := printed st @ [UnexpectedFormat response_data]\<rparr>))))
      else Inr st)"

text \<open>
  The \<open>while\<close> loop. It need not end (a stride of zero days), so it is a partial
  function: \<open>None\<close> is a loop that runs forever, \<open>Some (Inl (e, st))\<close> one that
  raised \<open>e\<close> in state \<open>st\<close>. The fetch operation is a function of its window (the
  extra keyword arguments are part of it). The end date and the cursor are in
  microseconds.
\<close>

partial_function (option) fetch_loop ::
  "(int \<Rightarrow> int \<Rightarrow> json) \<Rightarrow> (int \<Rightarrow> int) \<Rightarrow> int \<Rightarrow> int \<Rightarrow> fetch_state
     \<Rightarrow> ((exn \<times> fetch_state) + fetch_state) option" where
  "fetch_loop fetch_function timestamp_ms max_days_per_request end_date st =
     (if current_start st < end_date then
        (case plus_days (current_start st) max_days_per_request of
           Inl e \<Rightarrow> Some (Inl (e, st))
         | Inr stride_end \<Rightarrow>
            (let chunk_end = min stride_end end_date;
                 start_ts = timestamp_ms (current_start st);
                 end_ts = timestamp_ms chunk_end;
                 response_data = fetch_function start_ts end_ts;
                 st1 = st\<lparr>calls := calls st @ [(start_ts, end_ts)]\<rparr>
             in case absorb_page response_data st1 of
                  Inl e \<Rightarrow> Some (Inl (e, st1))
                | Inr st2 \<Rightarrow>
                   (case plus_days (current_start st2) max_days_per_request of
                      Inl e \<Rightarrow> Some (Inl (e, st2))
                    | Inr next_start \<Rightarrow>
                        fetch_loop fetch_function timestamp_ms max_days_per_request end_date
                          (st2\<lparr>current_start := next_start\<rparr>))))
      else Some (Inr st))"

declare fetch_loop.simps [code]

text \<open>The value returned is \<open>all_results\<close> of the final state.\<close>

definition fetch_historical_data ::
  "(int \<Rightarrow> int \<Rightarrow> json) \<Rightarrow> (int \<Rightarrow> int) \<Rightarrow> int \<Rightarrow> datetime \<Rightarrow> datetime
     \<Rightarrow> ((exn \<times> fetch_state) + fetch_state) option" where
  "fetch_historical_data fetch_function timestamp_ms max_days_per_request start_date end_date =
     fetch_loop fetch_function timestamp_ms max_days_per_request (us end_date)
       \<lparr>current_start = us start_date, all_results = [], calls = [], printed = []\<rparr>"

text \<open>
  The responses on which an iteration does not raise: everything but a true boolean, a
  number other than zero and a string that contains \<open>rows\<close>.
\<close>

fun accepted :: "json \<Rightarrow> bool" where
  "accepted (JBool b) = (\<not> b)"
| "accepted (JInt i) = (i = 0)"
| "accepted (JStr s) = (\<not> substring ''rows'' s)"
| "accepted v = True"

subsection \<open>The endpoint wrappers\<close>

text \<open>\<open>if v: params[k] = v\<close> for an argument that defaults to \<open>None\<close>.\<close>

definition set_if_str :: "string \<Rightarrow> string option \<Rightarrow> params \<Rightarrow> params" where
  "set_if_str k v ps =
     (case v of None \<Rightarrow> ps | Some s \<Rightarrow> if s \<noteq> [] then AList.update k (PStr s) ps else ps)"

definition set_if_int :: "string \<Rightarrow> int option \<Rightarrow> params \<Rightarrow> params" where
  "set_if_int k v ps =
     (case v of None \<Rightarrow> ps | Some i \<Rightarrow> if i \<noteq> 0 then AList.update k (PInt i) ps else ps)"

definition get_deposit_history ::
  "hexdigest \<Rightarrow> requests_request \<Rightarrow> mexc_client \<Rightarrow> int
     \<Rightarrow> string option \<Rightarrow> int option \<Rightarrow> int option \<Rightarrow> send_result" where
  "get_deposit_history hmac_hexdigest request self now_ms coin start_time end_time =
     (let endpoint = ''/api/v3/capital/deposit/hisrec'';
          ps = set_if_int ''endTime'' end_time
                 (set_if_int ''startTime'' start_time (set_if_str ''coin'' coin []))
      in send_request hmac_hexdigest request self now_ms ''GET'' endpoint (Some ps))"

definition get_withdrawal_history ::
  "hexdigest \<Rightarrow> requests_request \<Rightarrow> mexc_client \<Rightarrow> int
     \<Rightarrow> string option \<Rightarrow> int option \<Rightarrow> int option \<Rightarrow> send_result" where
  "get_withdrawal_history hmac_hexdigest request self now_ms coin start_time end_time =
     (let endpoint = ''/api/v3/capital/withdraw/history'';
          ps = set_if_int ''endTime'' end_time
                 (set_if_int ''startTime'' start_time (set_if_str ''coin'' coin []))
      in send_request hmac_hexdigest request self now_ms ''GET'' endpoint (Some ps))"

definition get_universal_transfer_history ::
  "hexdigest \<Rightarrow> requests_request \<Rightarrow> mexc_client \<Rightarrow> int
     \<Rightarrow> int option \<Rightarrow> int option \<Rightarrow> string option \<Rightarrow> string option \<Rightarrow> send_result" where
  "get_universal_transfer_history hmac_hexdigest request self now_ms
       start_time end_time from_account_type to_account_type =
     (let endpoint = ''/api/v3/capital/sub-account/universalTransfer'';
          ps = set_if_str ''toAccountType'' to_account_type
                 (set_if_str ''fromAccountType'' from_account_type
                    (set_if_int ''endTime'' end_time (set_if_int ''startTime'' start_time [])))
      in send_request hmac_hexdigest request self now_ms ''GET'' endpoint (Some ps))"

definition get_sub_account_assets ::
  "hexdigest \<Rightarrow> requests_request \<Rightarrow> mexc_client \<Rightarrow> int \<Rightarrow> string \<Rightarrow> string \<Rightarrow> send_result" where
  "get_sub_account_assets hmac_hexdigest request self now_ms sub_account account_type =
     (let endpoint = ''/api/v3/sub-account/asset'';
          ps = [(''subAccount'', PStr sub_account), (''accountType'', PStr account_type)]
      in send_request hmac_hexdigest request self now_ms ''GET'' endpoint (Some ps))"

definition get_all_orders ::
  "hexdigest \<Rightarrow> requests_request \<Rightarrow> mexc_client \<Rightarrow> int
     \<Rightarrow> string \<Rightarrow> int option \<Rightarrow> int option \<Rightarrow> int \<Rightarrow> send_result" where
  "get_all_orders hmac_hexdigest request self now_ms symbol start_time end_time limit =
     (let endpoint = ''/api/v3/allOrders'';
          ps = set_if_int ''endTime'' end_time
                 (set_if_int ''startTime'' start_time
                    [(''symbol'', PStr symbol), (''limit'', PInt limit)])
      in send_request hmac_hexdigest request self now_ms ''GET'' endpoint (Some ps))"

section \<open>Properties of the range paginator\<close>

subsection \<open>One iteration\<close>

text \<open>
  Absorbing a response touches neither the cursor nor the record of calls, and it
  raises on exactly the responses that are not \<^const>\<open>accepted\<close>.
\<close>

lemma absorb_page_frame:
  "absorb_page r st = Inr st' \<Longrightarrow> current_start st' = current_start st \<and> calls st' = calls st"
  by (auto simp: absorb_page_def split: if_splits json.splits sum.splits bool.splits)

lemma accepted_absorb: "accepted r \<Longrightarrow> \<exists>st'. absorb_page r st = Inr st'"
  by (cases r) (auto simp: absorb_page_def split: json.splits sum.splits bool.splits option.splits)

lemma absorb_accepted: "absorb_page r st = Inr st' \<Longrightarrow> accepted r"
  by (cases r) (auto simp: absorb_page_def split: if_splits json.splits sum.splits bool.splits option.splits)

lemma absorb_page_raises:
  "absorb_page r st = Inl e \<Longrightarrow> \<not> accepted r \<and> (e = TypeError \<or> e = AttributeError)"
  by (cases r) (auto simp: absorb_page_def split: if_splits json.splits sum.splits bool.splits option.splits)

subsection \<open>Datetime arithmetic\<close>

lemma us_range: "0 \<le> us d" "us d \<le> datetime_max"
  using us[of d] by simp_all

lemma us_of_us: "0 \<le> y \<Longrightarrow> y \<le> datetime_max \<Longrightarrow> us (datetime_of_us y) = y"
  by (simp add: datetime_of_us_inverse)

lemma plus_days_ok:
  "\<bar>n\<bar> \<le> 999999999 \<Longrightarrow> 0 \<le> d + n * us_per_day \<Longrightarrow> d + n * us_per_day \<le> datetime_max \<Longrightarrow>
     plus_days d n = Inr (d + n * us_per_day)"
  by (simp add: plus_days_def timedelta_days_def datetime_add_def)

lemma plus_days_Inr:
  "plus_days d n = Inr r \<Longrightarrow> r = d + n * us_per_day"
  by (auto simp: plus_days_def timedelta_days_def datetime_add_def split: if_splits)

lemma plus_days_Inl: "plus_days d n = Inl e \<Longrightarrow> e = OverflowError"
  by (auto simp: plus_days_def timedelta_days_def datetime_add_def split: if_splits)

subsection \<open>The loop\<close>

text \<open>With a stride of at least one day the loop ends, whatever the responses.\<close>

lemma fetch_loop_returns:
  assumes "0 < m"
  shows "\<exists>r. fetch_loop f ts m e st = Some r \<and>
           ((\<forall>a b. accepted (f a b)) \<longrightarrow> (\<forall>x s. r = Inl (x, s) \<longrightarrow> x = OverflowError))"
proof (induction "nat (e - current_start st)" arbitrary: st rule: less_induct)
  case less
  show ?case
  proof (cases "current_start st < e")
    case False
    then show ?thesis by (subst fetch_loop.simps) simp
  next
    case True
    show ?thesis
    proof (cases "plus_days (current_start st) m")
      case (Inl x)
      with True plus_days_Inl[OF Inl] show ?thesis by (subst fetch_loop.simps) simp
    next
      case (Inr nxt)
      let ?st1 = "st\<lparr>calls := calls st @ [(ts (current_start st), ts (min nxt e))]\<rparr>"
      let ?r = "f (ts (current_start st)) (ts (min nxt e))"
      show ?thesis
      proof (cases "absorb_page ?r ?st1")
        case (Inl x)
        from absorb_page_raises[OF Inl] have "\<not> accepted ?r" by simp
        then have "\<not> (\<forall>a b. accepted (f a b))" by blast
        with True Inr Inl show ?thesis by (subst fetch_loop.simps) (auto simp add: Let_def)
      next
        case st2: (Inr st2)
        then have c: "current_start st2 = current_start st"
          using absorb_page_frame[OF st2] by simp
        let ?st3 = "st2\<lparr>current_start := nxt\<rparr>"
        have nx: "nxt = current_start st + m * us_per_day" using plus_days_Inr[OF Inr] .
        have "nat (e - current_start ?st3) < nat (e - current_start st)"
          using True assms nx by (simp add: us_per_day_def)
        from less[OF this] obtain r where
          "fetch_loop f ts m e ?st3 = Some r"
          "(\<forall>a b. accepted (f a b)) \<longrightarrow> (\<forall>x s. r = Inl (x, s) \<longrightarrow> x = OverflowError)" by blast
        with True Inr st2 c show ?thesis by (subst fetch_loop.simps) (simp add: Let_def)
      qed
    qed
  qed
qed

text \<open>
  With a stride of zero days and a cursor before the end the loop never ends, unless a
  response makes it raise.
\<close>

lemma fetch_loop_stuck:
  assumes acc: "\<forall>s e. accepted (f s e)" and lt: "current_start st < e"
    and valid: "0 \<le> current_start st" "current_start st \<le> datetime_max"
  shows "fetch_loop f ts 0 e st = None"
proof (rule ccontr)
  assume "fetch_loop f ts 0 e st \<noteq> None"
  then obtain y where y: "fetch_loop f ts 0 e st = Some y" by auto
  have "\<not> (0 = (0::int) \<and> current_start st < e \<and> 0 \<le> current_start st \<and>
            current_start st \<le> datetime_max \<and> (\<forall>s e. accepted (f s e)))"
  proof (rule fetch_loop.raw_induct[where P = "\<lambda>f' ts' m e' st' y'.
           \<not> (m = 0 \<and> current_start st' < e' \<and> 0 \<le> current_start st' \<and>
              current_start st' \<le> datetime_max \<and> (\<forall>s e. accepted (f' s e)))", OF _ y])
    fix fl :: "(int \<Rightarrow> int \<Rightarrow> json) \<Rightarrow> (int \<Rightarrow> int) \<Rightarrow> int \<Rightarrow> int \<Rightarrow> fetch_state
                 \<Rightarrow> ((exn \<times> fetch_state) + fetch_state) option"
      and g :: "int \<Rightarrow> int \<Rightarrow> json" and tm :: "int \<Rightarrow> int" and m :: int and ed :: int
      and s0 :: fetch_state and z :: "(exn \<times> fetch_state) + fetch_state"
    assume IH: "\<And>f ts m e st y. fl f ts m e st = Some y \<Longrightarrow>
                  \<not> (m = 0 \<and> current_start st < e \<and> 0 \<le> current_start st \<and>
                     current_start st \<le> datetime_max \<and> (\<forall>s e. accepted (f s e)))"
    assume step: "(if current_start s0 < ed
      then case plus_days (current_start s0) m of
             Inl e \<Rightarrow> Some (Inl (e, s0))
           | Inr stride_end \<Rightarrow>
               let chunk_end = min stride_end ed;
                   start_ts = tm (current_start s0);
                   end_ts = tm chunk_end;
                   response_data = g start_ts end_ts;
                   st1 = s0\<lparr>calls := calls s0 @ [(start_ts, end_ts)]\<rparr>
               in case absorb_page response_data st1 of
                    Inl e \<Rightarrow> Some (Inl (e, st1))
                  | Inr st2 \<Rightarrow>
                      (case plus_days (current_start st2) m of
                         Inl e \<Rightarrow> Some (Inl (e, st2))
                       | Inr next_start \<Rightarrow> fl g tm m ed (st2\<lparr>current_start := next_start\<rparr>))
      else Some (Inr s0)) = Some z"
    show "\<not> (m = 0 \<and> current_start s0 < ed \<and> 0 \<le> current_start s0 \<and>
              current_start s0 \<le> datetime_max \<and> (\<forall>s e. accepted (g s e)))"
    proof
      assume h: "m = 0 \<and> current_start s0 < ed \<and> 0 \<le> current_start s0 \<and>
                 current_start s0 \<le> datetime_max \<and> (\<forall>s e. accepted (g s e))"
      then have pd: "plus_days (current_start s0) m = Inr (current_start s0)"
        using plus_days_ok[of 0 "current_start s0"] by simp
      let ?r = "g (tm (current_start s0)) (tm (min (current_start s0) ed))"
      let ?st1 = "s0\<lparr>calls := calls s0 @ [(tm (current_start s0), tm (min (current_start s0) ed))]\<rparr>"
      from h have "accepted ?r" by blast
      then obtain st2 where st2: "absorb_page ?r ?st1 = Inr st2" using accepted_absorb by blast
      then have c: "current_start st2 = current_start s0"
        using absorb_page_frame[OF st2] by simp
      from step h st2 pd c have "fl g tm m ed (st2\<lparr>current_start := current_start s0\<rparr>) = Some z"
        by (simp add: Let_def)
      from IH[OF this] h show False by simp
    qed
  qed
  with acc lt valid show False by blast
qed

text \<open>
  The loop run from a cursor that is \<open>k\<close> strides short of the end, when the cursor
  stays a datetime: it calls the fetch operation \<open>k\<close> times, on the windows that start
  at the cursor plus \<open>i\<close> strides and end one stride later or at the end date, and
  leaves the cursor \<open>k\<close> strides on.
\<close>

lemma fetch_loop_run:
  assumes acc: "\<forall>s e. accepted (f s e)" and pos: "0 < m" and small: "m \<le> 999999999"
  shows "(k = 0 \<and> e \<le> current_start st) \<or>
         (0 < k \<and> current_start st + (int k - 1) * (m * us_per_day) < e \<and>
          e \<le> current_start st + int k * (m * us_per_day))
     \<Longrightarrow> 0 \<le> current_start st \<Longrightarrow> current_start st + int k * (m * us_per_day) \<le> datetime_max
     \<Longrightarrow> \<exists>st'. fetch_loop f ts m e st = Some (Inr st') \<and>
           calls st' = calls st @ map (\<lambda>i. (ts (current_start st + int i * (m * us_per_day)),
                                             ts (min (current_start st + (int i + 1) * (m * us_per_day)) e))) [0..<k] \<and>
           current_start st' = current_start st + int k * (m * us_per_day)"
proof (induction k arbitrary: st)
  case 0
  then have "\<not> current_start st < e" by auto
  then show ?case by (subst fetch_loop.simps) simp
next
  case (Suc k)
  let ?d = "m * us_per_day"
  let ?c = "current_start st"
  have dpos: "0 < ?d" using pos by (simp add: us_per_day_def)
  from Suc.prems(1) have lt: "?c + int k * ?d < e" and le: "e \<le> ?c + (int k + 1) * ?d"
    by (auto simp: algebra_simps)
  have kd: "0 \<le> int k * ?d" using dpos by simp
  with lt have cur: "?c < e" by linarith
  have top: "?c + ?d + int k * ?d \<le> datetime_max" using Suc.prems(3) by (simp add: algebra_simps)
  have "?c + ?d \<le> datetime_max" using top kd by linarith
  moreover have "0 \<le> ?c + ?d" using Suc.prems(2) dpos by linarith
  ultimately have pd: "plus_days ?c m = Inr (?c + ?d)"
    using plus_days_ok[of m ?c] pos small by simp
  let ?r = "f (ts ?c) (ts (min (?c + ?d) e))"
  let ?st1 = "st\<lparr>calls := calls st @ [(ts ?c, ts (min (?c + ?d) e))]\<rparr>"
  from acc have "accepted ?r" by blast
  then obtain st2 where st2: "absorb_page ?r ?st1 = Inr st2" using accepted_absorb by blast
  have fr: "current_start st2 = ?c" "calls st2 = calls st @ [(ts ?c, ts (min (?c + ?d) e))]"
    using absorb_page_frame[OF st2] by simp_all
  let ?st3 = "st2\<lparr>current_start := ?c + ?d\<rparr>"
  have c3: "current_start ?st3 = ?c + ?d" by simp
  have pre: "(k = 0 \<and> e \<le> current_start ?st3) \<or>
         (0 < k \<and> current_start ?st3 + (int k - 1) * ?d < e \<and> e \<le> current_start ?st3 + int k * ?d)"
  proof (cases k)
    case 0
    with le show ?thesis by simp
  next
    case (Suc j)
    with lt le show ?thesis by (simp add: algebra_simps)
  qed
  have v3: "0 \<le> current_start ?st3" using Suc.prems(2) dpos by simp
  have t3: "current_start ?st3 + int k * ?d \<le> datetime_max" using top by simp
  from Suc.IH[OF pre v3 t3] obtain st' where
    run: "fetch_loop f ts m e ?st3 = Some (Inr st')" and
    cs: "calls st' = calls ?st3 @ map (\<lambda>i. (ts (current_start ?st3 + int i * ?d),
                                             ts (min (current_start ?st3 + (int i + 1) * ?d) e))) [0..<k]" and
    fin: "current_start st' = current_start ?st3 + int k * ?d" by blast
  have unf: "fetch_loop f ts m e st = fetch_loop f ts m e ?st3"
    using cur st2 pd fr(1) by (subst fetch_loop.simps) (simp add: Let_def)
  have shift: "map (\<lambda>i. (ts (?c + int i * ?d), ts (min (?c + (int i + 1) * ?d) e))) [0..<Suc k]
      = (ts ?c, ts (min (?c + ?d) e)) #
        map (\<lambda>i. (ts (?c + ?d + int i * ?d), ts (min (?c + ?d + (int i + 1) * ?d) e))) [0..<k]"
    by (simp add: upt_conv_Cons map_Suc_upt[symmetric] algebra_simps del: upt_Suc)
  have "calls st' = calls st @ map (\<lambda>i. (ts (?c + int i * ?d), ts (min (?c + (int i + 1) * ?d) e))) [0..<Suc k]"
    unfolding shift using cs fr by simp
  moreover have "current_start st' = ?c + int (Suc k) * ?d"
    using fin by (simp add: algebra_simps)
  ultimately show ?case using run unf by simp
qed

lemma ceiling_bounds:
  fixes a d :: int
  assumes "0 < a" "0 < d"
  shows "0 < nat \<lceil>real_of_int a / real_of_int d\<rceil>"
    and "(int (nat \<lceil>real_of_int a / real_of_int d\<rceil>) - 1) * d < a"
    and "a \<le> int (nat \<lceil>real_of_int a / real_of_int d\<rceil>) * d"
proof -
  let ?q = "\<lceil>real_of_int a / real_of_int d\<rceil>"
  have qpos: "0 < ?q" using assms by (simp add: ceiling_less_iff less_ceiling_iff)
  then show "0 < nat ?q" by simp
  have dpos: "0 < real_of_int d" using assms by simp
  have "real_of_int a \<le> of_int ?q * real_of_int d"
    using pos_divide_le_eq[OF dpos, of "real_of_int a" "of_int ?q"]
      le_of_int_ceiling[of "real_of_int a / real_of_int d"] by blast
  then have "real_of_int a \<le> real_of_int (?q * d)" by simp
  then have "a \<le> ?q * d" by (simp only: of_int_le_iff)
  with qpos show "a \<le> int (nat ?q) * d" by simp
  have "of_int ?q - 1 < real_of_int a / real_of_int d"
    using ceiling_correct[of "real_of_int a / real_of_int d"] by blast
  then have "(of_int ?q - 1) * real_of_int d < real_of_int a"
    using pos_less_divide_eq[OF dpos, of "of_int ?q - 1" "real_of_int a"] by blast
  then have "real_of_int ((?q - 1) * d) < real_of_int a" by simp
  then have "(?q - 1) * d < a" by (simp only: of_int_less_iff)
  with qpos show "(int (nat ?q) - 1) * d < a" by simp
qed

lemma fetch_historical_data_run:
  assumes acc: "\<forall>s e. accepted (f s e)" and lt: "us start_date < us end_date" and pos: "0 < m"
    and fit: "us start_date +
        \<lceil>real_of_int (us end_date - us start_date) / real_of_int (m * us_per_day)\<rceil> * (m * us_per_day)
        \<le> datetime_max"
  shows "\<exists>st. fetch_historical_data f ts m start_date end_date = Some (Inr st) \<and>
           calls st = map (\<lambda>i. (ts (us start_date + int i * (m * us_per_day)),
                                  ts (min (us start_date + (int i + 1) * (m * us_per_day)) (us end_date))))
                        [0..<nat \<lceil>real_of_int (us end_date - us start_date) / real_of_int (m * us_per_day)\<rceil>] \<and>
           current_start st =
             us start_date +
             \<lceil>real_of_int (us end_date - us start_date) / real_of_int (m * us_per_day)\<rceil> * (m * us_per_day)"
proof -
  let ?d = "m * us_per_day"
  let ?n = "\<lceil>real_of_int (us end_date - us start_date) / real_of_int ?d\<rceil>"
  let ?k = "nat ?n"
  let ?st = "\<lparr>current_start = us start_date, all_results = [], calls = [], printed = []\<rparr>"
  have dpos: "0 < ?d" using pos by (simp add: us_per_day_def)
  have apos: "0 < us end_date - us start_date" using lt by simp
  note cb = ceiling_bounds[OF apos dpos]
  have kint: "int ?k = ?n" using cb(1) by simp
  have n1: "1 \<le> ?n" using cb(1) by simp
  have d0: "0 \<le> ?d" using dpos by simp
  have "?d \<le> ?n * ?d" using mult_right_mono[OF n1 d0] by simp
  with fit us_range(1)[of start_date] have "?d \<le> datetime_max" by linarith
  then have small: "m \<le> 999999999" by (simp add: datetime_max_def us_per_day_def)
  have pre: "(?k = 0 \<and> us end_date \<le> current_start ?st) \<or>
         (0 < ?k \<and> current_start ?st + (int ?k - 1) * ?d < us end_date \<and>
          us end_date \<le> current_start ?st + int ?k * ?d)"
    using cb by simp
  have v: "0 \<le> current_start ?st" using us_range(1) by simp
  have t: "current_start ?st + int ?k * ?d \<le> datetime_max" using fit kint by simp
  from fetch_loop_run[OF acc pos small pre v t, of ts] kint show ?thesis
    unfolding fetch_historical_data_def by simp
qed

subsection \<open>The claims on the paginator\<close>

text \<open>
  C8. With \<open>start_date >= end_date\<close>, \<open>fetch_historical_data\<close> returns the empty
  sequence and does not call the fetch operation: the loop is not entered, so the final
  state is the initial one.
\<close>

theorem fetch_historical_data_degenerate_range: "us end_date \<le> us start_date \<Longrightarrow>
    fetch_historical_data fetch_function timestamp_ms max_days_per_request start_date end_date =
      Some (Inr \<lparr>current_start = us start_date, all_results = [], calls = [], printed = []\<rparr>)"
  unfolding fetch_historical_data_def by (subst fetch_loop.simps) simp

theorem fetch_historical_data_degenerate_range_witness:
  "us (datetime_of_us 3) \<le> us (datetime_of_us 10) \<and>
   fetch_historical_data (\<lambda>s e. JInt 5) (\<lambda>d. d div 1000) 7 (datetime_of_us 10) (datetime_of_us 3) =
      Some (Inr \<lparr>current_start = 10, all_results = [], calls = [], printed = []\<rparr>)"
  using fetch_historical_data_degenerate_range[of "datetime_of_us 3" "datetime_of_us 10" "\<lambda>s e. JInt 5" "\<lambda>d. d div 1000" 7]
  by (simp add: us_of_us datetime_max_def us_per_day_def)

text \<open>
  C10. \<open>fetch_historical_data\<close> ends for every input with
  \<open>max_days_per_request >= 1\<close> (it returns, or raises on a response it cannot
  read or on a date out of range), since the cursor moves on by a fixed positive stride
  at each iteration. The condition is needed: with a stride of zero days, a start before
  the end and responses the loop reads, it runs forever.
\<close>

theorem fetch_historical_data_terminates:
  "(1 \<le> max_days_per_request \<longrightarrow>
      (\<exists>r. fetch_historical_data fetch_function timestamp_ms max_days_per_request start_date end_date =
            Some r)) \<and>
   (max_days_per_request = 0 \<and> us start_date < us end_date \<and>
    (\<forall>s e. accepted (fetch_function s e)) \<longrightarrow>
      fetch_historical_data fetch_function timestamp_ms max_days_per_request start_date end_date = None)"
proof (intro conjI impI)
  assume "1 \<le> max_days_per_request"
  then have "0 < max_days_per_request" by simp
  from fetch_loop_returns[OF this]
  show "\<exists>r. fetch_historical_data fetch_function timestamp_ms max_days_per_request start_date end_date
          = Some r"
    unfolding fetch_historical_data_def by blast
next
  assume h: "max_days_per_request = 0 \<and> us start_date < us end_date \<and>
             (\<forall>s e. accepted (fetch_function s e))"
  then show "fetch_historical_data fetch_function timestamp_ms max_days_per_request start_date end_date
               = None"
    unfolding fetch_historical_data_def
    using fetch_loop_stuck[of fetch_function _ "us end_date" timestamp_ms] us_range[of start_date]
    by simp
qed

theorem fetch_historical_data_terminates_witness:
  "(1::int) \<le> 7 \<and>
   (\<exists>r. fetch_historical_data (\<lambda>s e. JInt 5) (\<lambda>d. d div 1000) 7
          (datetime_of_us 0) (datetime_of_us (20 * us_per_day)) = Some r) \<and>
   us (datetime_of_us 0) < us (datetime_of_us 1) \<and> (\<forall>s e. accepted ((\<lambda>s e. JNone) s e)) \<and>
   fetch_historical_data (\<lambda>s e. JNone) (\<lambda>d. d div 1000) 0 (datetime_of_us 0) (datetime_of_us 1) = None"
  using fetch_historical_data_terminates[of 7 "\<lambda>s e. JInt 5" "\<lambda>d. d div 1000" "datetime_of_us 0" "datetime_of_us (20 * us_per_day)"]
        fetch_historical_data_terminates[of 0 "\<lambda>s e. JNone" "\<lambda>d. d div 1000" "datetime_of_us 0" "datetime_of_us 1"]
  by (simp add: us_of_us datetime_max_def us_per_day_def)







section \<open>Properties of the request signer and the transport\<close>

subsection \<open>What \<open>_send_request\<close> builds\<close>

lemma join_snoc: "xs \<noteq> [] \<Longrightarrow> join sep (xs @ [y]) = join sep xs @ sep @ y"
  by (induction sep xs rule: join.induct) auto

lemma update_fresh: "k \<notin> fst ` set al \<Longrightarrow> AList.update k v al = al @ [(k, v)]"
  by (induction al) auto

lemma update_not_Nil: "AList.update k v al \<noteq> []"
  by (cases al) auto

lemma urlencode_snoc:
  "al \<noteq> [] \<Longrightarrow>
     urlencode (al @ [(k, v)]) = urlencode al @ ''&'' @ quote_plus k @ ''='' @ quote_plus (str_pval v)"
  by (simp add: urlencode_def join_snoc)

lemma quote_plus_signature: "quote_plus ''signature'' = ''signature''"
  by (simp add: quote_plus_def quote_byte_def always_safe_def)

lemma keys_sorted_params:
  "fst ` set (sort_key fst (AList.update ''timestamp'' v al)) = insert ''timestamp'' (fst ` set al)"
  by (simp add: AList.update_keys flip: set_map) auto

lemma sent_eq:
  "sent_params (send_request h req c now m ep pa) =
     AList.update ''signature''
       (PStr (generate_signature h c (sort_key fst (AList.update ''timestamp'' (PInt now)
                (case pa of None \<Rightarrow> [] | Some p \<Rightarrow> p)))))
       (sort_key fst (AList.update ''timestamp'' (PInt now) (case pa of None \<Rightarrow> [] | Some p \<Rightarrow> p)))"
  by (simp add: send_request_def Let_def split: sum.splits option.splits)

lemma url_eq:
  "url (send_request h req c now m ep pa) =
     BASE_URL @ ep @ ''?'' @ urlencode (sent_params (send_request h req c now m ep pa))"
  by (simp add: send_request_def Let_def split: sum.splits option.splits)

lemma caller_eq:
  "caller_params (send_request h req c now m ep pa) =
     (case pa of None \<Rightarrow> None | Some p \<Rightarrow> Some (AList.update ''timestamp'' (PInt now) p))"
  by (simp add: send_request_def Let_def split: sum.splits option.splits)

text \<open>
  C1 (corrected). The claim: for every parameter mapping, the string that is signed is
  the part of the transmitted query that precedes the signature parameter. It holds for a
  mapping that has no key \<open>signature\<close>: the canonical query (the parameters with the
  timestamp, sorted by key and URL-encoded) is what the HMAC is taken of, and the
  transmitted query is that same string followed by \<open>&signature=\<close> and the digest. With
  a key \<open>signature\<close> in the mapping, \<open>sorted_params['signature'] = signature\<close>
  overwrites that entry in place, and the query that is sent is not the one that was
  signed.
\<close>

theorem send_request_signs_transmitted_query:
  assumes "p = (case params_arg of None \<Rightarrow> [] | Some q \<Rightarrow> q)"
    and "''signature'' \<notin> fst ` set p"
  shows "let sorted_params = sort_key fst (AList.update ''timestamp'' (PInt now_ms) p);
             query_string = urlencode sorted_params;
             signature = generate_signature hmac_hexdigest self sorted_params
         in signature = hmac_hexdigest (secret_key self) query_string \<and>
            url (send_request hmac_hexdigest request self now_ms method endpoint params_arg) =
              BASE_URL @ endpoint @ ''?'' @ query_string @ ''&signature='' @ quote_plus signature"
proof -
  let ?sp = "sort_key fst (AList.update ''timestamp'' (PInt now_ms) p)"
  have fresh: "''signature'' \<notin> fst ` set ?sp"
    unfolding keys_sorted_params using assms(2) by simp
  have ne: "?sp \<noteq> []"
    using update_not_Nil[of "''timestamp''" "PInt now_ms" p] by (metis length_sort length_0_conv)
  show ?thesis
    by (simp add: Let_def url_eq sent_eq update_fresh[OF fresh] urlencode_snoc[OF ne]
        quote_plus_signature generate_signature_def flip: assms(1))
qed

theorem send_request_signs_transmitted_query_witness:
  "''signature'' \<notin> fst ` set [(''symbol'', PStr ''BTC USDT''), (''limit'', PInt 5)] \<and>
   url (send_request (\<lambda>k m. ''5f'') (\<lambda>m u h. RequestFailed) \<lparr>api_key = ''k'', secret_key = ''s''\<rparr>
          1700 ''GET'' ''/api/v3/allOrders'' (Some [(''symbol'', PStr ''BTC USDT''), (''limit'', PInt 5)])) =
     ''https://api.mexc.com/api/v3/allOrders?'' @ ''limit=5&symbol=BTC+USDT&timestamp=1700'' @
     ''&signature='' @ ''5f''"
  using send_request_signs_transmitted_query[of "[(''symbol'', PStr ''BTC USDT''), (''limit'', PInt 5)]"
              "Some [(''symbol'', PStr ''BTC USDT''), (''limit'', PInt 5)]" 1700
              "\<lambda>k m. ''5f''" "\<lparr>api_key = ''k'', secret_key = ''s''\<rparr>" "\<lambda>m u h. RequestFailed"
              "''GET''" "''/api/v3/allOrders''"]
  by (simp add: Let_def generate_signature_def BASE_URL_def urlencode_def quote_plus_def quote_byte_def
      always_safe_def hex_digit_def str_int_def str_nat.simps digit_char_def)

theorem send_request_signature_key_counterexample:
  "urlencode (sort_key fst (AList.update ''timestamp'' (PInt 1700) [(''signature'', PStr ''x'')])) =
     ''signature=x&timestamp=1700'' \<and>
   url (send_request (\<lambda>k m. ''5f'') (\<lambda>m u h. RequestFailed) \<lparr>api_key = ''k'', secret_key = ''s''\<rparr>
          1700 ''GET'' ''/api/v3/account'' (Some [(''signature'', PStr ''x'')])) =
     ''https://api.mexc.com/api/v3/account?signature=5f&timestamp=1700'' \<and>
   \<not> (\<exists>rest. ''signature=5f&timestamp=1700'' = ''signature=x&timestamp=1700'' @ rest)"
  by (simp add: send_request_def try_request_def Let_def generate_signature_def BASE_URL_def urlencode_def
      quote_plus_def quote_byte_def always_safe_def hex_digit_def str_int_def str_nat.simps digit_char_def)

subsection \<open>Order of insertion\<close>

lemma set_update_distinct:
  "distinct (map fst al) \<Longrightarrow> set (AList.update k v al) = insert (k, v) {x \<in> set al. fst x \<noteq> k}"
  by (induction al) (auto simp: image_iff)

lemma sort_key_unique:
  assumes "distinct (map fst xs)" "distinct (map fst ys)" "set xs = set ys"
  shows "sort_key fst xs = sort_key fst (ys :: (string \<times> 'v) list)"
proof (rule map_sorted_distinct_set_unique[where f = fst])
  have "inj_on fst (set xs)" using assms(1) by (simp add: distinct_map)
  then show "inj_on fst (set (sort_key fst xs) \<union> set (sort_key fst ys))" using assms(3) by simp
  show "distinct (map fst (sort_key fst xs))" using assms(1) by (simp add: distinct_map)
  show "distinct (map fst (sort_key fst ys))" using assms(2) by (simp add: distinct_map)
  show "set (sort_key fst xs) = set (sort_key fst ys)" using assms(3) by simp
qed simp_all

text \<open>
  C2. Two parameter mappings with the same items, inserted in different orders, and the
  same timestamp give the same signed query string, the same signature, the same
  parameters sent and the same URL. A mapping is a list of items with distinct keys.
\<close>

theorem send_request_order_independent:
  assumes "distinct (map fst p1)" and "distinct (map fst p2)" and "set p1 = set p2"
  shows "urlencode (sort_key fst (AList.update ''timestamp'' (PInt now_ms) p1)) =
         urlencode (sort_key fst (AList.update ''timestamp'' (PInt now_ms) p2)) \<and>
         generate_signature hmac_hexdigest self (sort_key fst (AList.update ''timestamp'' (PInt now_ms) p1)) =
         generate_signature hmac_hexdigest self (sort_key fst (AList.update ''timestamp'' (PInt now_ms) p2)) \<and>
         sent_params (send_request hmac_hexdigest request self now_ms method endpoint (Some p1)) =
         sent_params (send_request hmac_hexdigest request self now_ms method endpoint (Some p2)) \<and>
         url (send_request hmac_hexdigest request self now_ms method endpoint (Some p1)) =
         url (send_request hmac_hexdigest request self now_ms method endpoint (Some p2))"
proof -
  let ?u1 = "AList.update ''timestamp'' (PInt now_ms) p1"
  let ?u2 = "AList.update ''timestamp'' (PInt now_ms) p2"
  have "set ?u1 = set ?u2" using assms by (simp add: set_update_distinct)
  moreover have "distinct (map fst ?u1)" "distinct (map fst ?u2)"
    using assms by (simp_all add: AList.distinct_update)
  ultimately have "sort_key fst ?u1 = sort_key fst ?u2" by (intro sort_key_unique)
  then show ?thesis by (simp add: url_eq sent_eq)
qed

theorem send_request_order_independent_witness:
  "distinct (map fst [(''coin'', PStr ''BTC''), (''startTime'', PInt 5)]) \<and>
   distinct (map fst [(''startTime'', PInt 5), (''coin'', PStr ''BTC'')]) \<and>
   set [(''coin'', PStr ''BTC''), (''startTime'', PInt 5)] =
     set [(''startTime'', PInt 5), (''coin'', PStr ''BTC'')] \<and>
   url (send_request (\<lambda>k m. ''5f'') (\<lambda>m u h. RequestFailed) \<lparr>api_key = ''k'', secret_key = ''s''\<rparr>
          1700 ''GET'' ''/api/v3/capital/deposit/hisrec''
          (Some [(''coin'', PStr ''BTC''), (''startTime'', PInt 5)])) =
   url (send_request (\<lambda>k m. ''5f'') (\<lambda>m u h. RequestFailed) \<lparr>api_key = ''k'', secret_key = ''s''\<rparr>
          1700 ''GET'' ''/api/v3/capital/deposit/hisrec''
          (Some [(''startTime'', PInt 5), (''coin'', PStr ''BTC'')]))"
  using send_request_order_independent[of "[(''coin'', PStr ''BTC''), (''startTime'', PInt 5)]"
              "[(''startTime'', PInt 5), (''coin'', PStr ''BTC'')]" 1700
              "\<lambda>k m. ''5f''" "\<lparr>api_key = ''k'', secret_key = ''s''\<rparr>" "\<lambda>m u h. RequestFailed"
              "''GET''" "''/api/v3/capital/deposit/hisrec''"]
  by (simp add: insert_commute)

subsection \<open>The caller's mapping\<close>

text \<open>
  C7 (corrected). The claim: the caller's mapping is unchanged by the call. The
  signature goes into the sorted copy, not into the caller's mapping, but the timestamp
  is written into the very mapping the caller passed: after the call it is the caller's
  mapping with \<open>timestamp\<close> set to the injected value, every other key as it was (the
  timestamp is appended when the mapping had none, and replaces the old value in place
  otherwise).
\<close>

theorem send_request_caller_params:
  "caller_params (send_request hmac_hexdigest request self now_ms method endpoint (Some p)) =
     Some (AList.update ''timestamp'' (PInt now_ms) p) \<and>
   map_of (AList.update ''timestamp'' (PInt now_ms) p) ''timestamp'' = Some (PInt now_ms) \<and>
   (\<forall>k. k \<noteq> ''timestamp'' \<longrightarrow>
      map_of (AList.update ''timestamp'' (PInt now_ms) p) k = map_of p k) \<and>
   (''timestamp'' \<in> fst ` set p \<longrightarrow>
      map fst (AList.update ''timestamp'' (PInt now_ms) p) = map fst p) \<and>
   (''timestamp'' \<notin> fst ` set p \<longrightarrow>
      AList.update ''timestamp'' (PInt now_ms) p = p @ [(''timestamp'', PInt now_ms)])"
  by (simp add: caller_eq AList.update_conv' AList.update_keys update_fresh)

theorem send_request_caller_params_witness:
  "''coin'' \<noteq> ''timestamp'' \<and> ''timestamp'' \<notin> fst ` set [(''coin'', PStr ''BTC'')] \<and>
   caller_params (send_request (\<lambda>k m. ''5f'') (\<lambda>m u h. RequestFailed) \<lparr>api_key = ''k'', secret_key = ''s''\<rparr>
          1700 ''GET'' ''/api/v3/capital/deposit/hisrec'' (Some [(''coin'', PStr ''BTC'')])) =
     Some ([(''coin'', PStr ''BTC'')] @ [(''timestamp'', PInt 1700)]) \<and>
   map_of (AList.update ''timestamp'' (PInt 1700) [(''coin'', PStr ''BTC'')]) ''coin'' = Some (PStr ''BTC'')"
  using send_request_caller_params[of "\<lambda>k m. ''5f''" "\<lambda>m u h. RequestFailed" "\<lparr>api_key = ''k'', secret_key = ''s''\<rparr>"
              1700 "''GET''" "''/api/v3/capital/deposit/hisrec''" "[(''coin'', PStr ''BTC'')]"]
  by simp

theorem send_request_mutates_counterexample:
  "caller_params (send_request (\<lambda>k m. ''5f'') (\<lambda>m u h. RequestFailed) \<lparr>api_key = ''k'', secret_key = ''s''\<rparr>
          1700 ''GET'' ''/api/v3/capital/deposit/hisrec'' (Some [(''coin'', PStr ''BTC'')])) =
     Some [(''coin'', PStr ''BTC''), (''timestamp'', PInt 1700)] \<and>
   caller_params (send_request (\<lambda>k m. ''5f'') (\<lambda>m u h. RequestFailed) \<lparr>api_key = ''k'', secret_key = ''s''\<rparr>
          1700 ''GET'' ''/api/v3/capital/deposit/hisrec'' (Some [(''coin'', PStr ''BTC'')])) \<noteq>
     Some [(''coin'', PStr ''BTC'')]"
  by (simp add: send_request_def try_request_def Let_def)

subsection \<open>Transport failures\<close>

text \<open>
  C6 (corrected). The claim: a non-2xx status or any transport exception is logged and
  gives \<open>None\<close>, never an exception. What decides is \<open>raise_for_status\<close>, which
  raises on a 4xx or 5xx status: such a status, an exception of \<open>requests.request\<close>
  and a body that does not decode are each logged and give \<open>None\<close>, and every other
  response gives its decoded body. Every raise of the \<open>try\<close> body is caught. A status
  outside 2xx that is neither 4xx nor 5xx (a 302 with a JSON body, say) is not a failure
  to the code: its body is returned.
\<close>

theorem send_request_failures_absent:
  assumes "r = send_request hmac_hexdigest request self now_ms method endpoint params_arg"
    and "t = request method (url r) (headers self)"
  shows "(t = RequestFailed \<longrightarrow> returned r = JNone \<and> logged r = [OtherErrorOccurred]) \<and>
         (\<forall>resp. t = Responded resp \<and> 400 \<le> status_code resp \<and> status_code resp < 600 \<longrightarrow>
            returned r = JNone \<and> logged r = [HttpErrorOccurred]) \<and>
         (\<forall>resp. t = Responded resp \<and> \<not> (400 \<le> status_code resp \<and> status_code resp < 600) \<and>
                 json_body resp = None \<longrightarrow>
            returned r = JNone \<and> logged r = [OtherErrorOccurred]) \<and>
         (\<forall>resp j. t = Responded resp \<and> \<not> (400 \<le> status_code resp \<and> status_code resp < 600) \<and>
                 json_body resp = Some j \<longrightarrow>
            returned r = j \<and> logged r = []) \<and>
         (\<forall>e. try_request request self method (url r) = Inl e \<longrightarrow>
            returned r = JNone \<and> logged r \<noteq> [])"
  using assms
  by (auto simp: send_request_def try_request_def raise_for_status_def Let_def
      split: sum.splits option.splits transport.splits if_splits)

theorem send_request_failures_absent_witness:
  "(400::int) \<le> 404 \<and> (404::int) < 600 \<and>
   returned (send_request (\<lambda>k m. ''5f'')
      (\<lambda>m u h. Responded \<lparr>status_code = 404, json_body = Some (JDict [(''msg'', JStr ''no'')])\<rparr>)
      \<lparr>api_key = ''k'', secret_key = ''s''\<rparr> 1700 ''GET'' ''/api/v3/allOrders'' None) = JNone \<and>
   logged (send_request (\<lambda>k m. ''5f'')
      (\<lambda>m u h. Responded \<lparr>status_code = 404, json_body = Some (JDict [(''msg'', JStr ''no'')])\<rparr>)
      \<lparr>api_key = ''k'', secret_key = ''s''\<rparr> 1700 ''GET'' ''/api/v3/allOrders'' None) = [HttpErrorOccurred]"
  using send_request_failures_absent[OF refl refl, of "\<lambda>m u h. Responded \<lparr>status_code = 404, json_body = Some (JDict [(''msg'', JStr ''no'')])\<rparr>"
      "''GET''" "\<lambda>k m. ''5f''" "\<lparr>api_key = ''k'', secret_key = ''s''\<rparr>" 1700 "''/api/v3/allOrders''" None]
  by simp

theorem send_request_redirect_counterexample:
  "returned (send_request (\<lambda>k m. ''5f'')
      (\<lambda>m u h. Responded \<lparr>status_code = 302, json_body = Some (JList [JInt 1])\<rparr>)
      \<lparr>api_key = ''k'', secret_key = ''s''\<rparr> 1700 ''GET'' ''/api/v3/allOrders'' None) = JList [JInt 1] \<and>
   returned (send_request (\<lambda>k m. ''5f'')
      (\<lambda>m u h. Responded \<lparr>status_code = 302, json_body = Some (JList [JInt 1])\<rparr>)
      \<lparr>api_key = ''k'', secret_key = ''s''\<rparr> 1700 ''GET'' ''/api/v3/allOrders'' None) \<noteq> JNone"
  by (simp add: send_request_def try_request_def raise_for_status_def Let_def)

section \<open>Normalizing a page\<close>

lemma fetch_historical_data_accepted:
  assumes acc: "\<forall>s e. accepted (f s e)" and pos: "0 < m"
    and fit: "us end_date + m * us_per_day \<le> datetime_max"
  shows "\<exists>st. fetch_historical_data f ts m start_date end_date = Some (Inr st)"
proof (cases "us start_date < us end_date")
  case True
  let ?d = "m * us_per_day"
  let ?n = "\<lceil>real_of_int (us end_date - us start_date) / real_of_int ?d\<rceil>"
  have dpos: "0 < ?d" using pos by (simp add: us_per_day_def)
  have apos: "0 < us end_date - us start_date" using True by simp
  note cb = ceiling_bounds[OF apos dpos]
  have kint: "int (nat ?n) = ?n" using cb(1) by simp
  from cb(2) kint have "(?n - 1) * ?d < us end_date - us start_date" by simp
  then have "us start_date + ?n * ?d < us end_date + ?d" by (simp add: algebra_simps)
  with fit have "us start_date + ?n * ?d \<le> datetime_max" by linarith
  from fetch_historical_data_run[OF acc True pos this, of ts] show ?thesis by blast
next
  case False
  then show ?thesis unfolding fetch_historical_data_def by (subst fetch_loop.simps) simp
qed

lemma fetch_historical_data_no_page_error:
  assumes acc: "\<forall>s e. accepted (f s e)" and pos: "0 < m"
  shows "\<exists>r. fetch_historical_data f ts m start_date end_date = Some r \<and>
           (\<forall>x s. r = Inl (x, s) \<longrightarrow> x = OverflowError)"
  using fetch_loop_returns[OF pos, of f ts "us end_date"] acc
  unfolding fetch_historical_data_def by blast

lemma absorb_rows_dict:
  assumes "map_of d ''rows'' = Some (JList rows)"
  shows "absorb_page (JDict d) st = Inr (st\<lparr>all_results := all_results st @ rows\<rparr>)"
proof -
  from assms have "(''rows'', JList rows) \<in> set d" by (rule map_of_SomeD)
  then have "d \<noteq> []" "''rows'' \<in> fst ` set d" by force+
  with assms show ?thesis by (simp add: absorb_page_def)
qed

lemma absorb_raw_list: "absorb_page (JList rows) st = Inr (st\<lparr>all_results := all_results st @ rows\<rparr>)"
  by (simp add: absorb_page_def)

lemma absorb_other_dict:
  assumes "d \<noteq> []" and "\<forall>rows. map_of d ''rows'' \<noteq> Some (JList rows)"
  shows "absorb_page (JDict d) st = Inr (st\<lparr>printed := printed st @ [UnexpectedFormat (JDict d)]\<rparr>)"
proof (cases "''rows'' \<in> fst ` set d")
  case False
  with assms(1) show ?thesis by (simp add: absorb_page_def)
next
  case True
  then obtain v where v: "map_of d ''rows'' = Some v"
    by (metis domD dom_map_of_conv_image_fst)
  with assms(2) have "\<forall>rows. v \<noteq> JList rows" by auto
  with True v assms(1) show ?thesis by (cases v) (simp_all add: absorb_page_def)
qed

lemma absorb_falsy: "\<not> truthy r \<Longrightarrow> absorb_page r st = Inr st"
  by (simp add: absorb_page_def)

text \<open>
  C5 (corrected). The claim: a raw list and an object with a \<open>rows\<close> list of the same
  records are normalized to the same records, appended in order; a response of neither
  shape is skipped with a warning, adds no records and does not fail the fetch. The first
  half holds. Of the second: a non-empty object of neither shape is skipped with a
  warning and adds nothing; a response that is false in Python (\<open>None\<close>, an empty
  list, an empty object, ...) is skipped without a warning, by the guard
  \<open>if response_data:\<close>; and when every response is one the loop reads, no page makes
  the fetch fail: it returns, or stops on a date out of range (which it does not when
  \<open>end_date\<close> plus one stride is a datetime). (A number other than zero or \<open>True\<close>
  makes \<open>'rows' in response_data\<close> raise \<open>TypeError\<close>, which ends the fetch; the
  statement below says nothing of it.)
\<close>

theorem absorb_page_normalizes:
  "(map_of d ''rows'' = Some (JList rows) \<longrightarrow>
      absorb_page (JList rows) st = Inr (st\<lparr>all_results := all_results st @ rows\<rparr>) \<and>
      absorb_page (JDict d) st = absorb_page (JList rows) st) \<and>
   (d \<noteq> [] \<and> (\<forall>rows. map_of d ''rows'' \<noteq> Some (JList rows)) \<longrightarrow>
      absorb_page (JDict d) st = Inr (st\<lparr>printed := printed st @ [UnexpectedFormat (JDict d)]\<rparr>)) \<and>
   (\<not> truthy r \<longrightarrow> absorb_page r st = Inr st) \<and>
   ((\<forall>s e. accepted (f s e)) \<and> 0 < m \<and> us end_date + m * us_per_day \<le> datetime_max \<longrightarrow>
      (\<exists>st'. fetch_historical_data f ts m start_date end_date = Some (Inr st'))) \<and>
   ((\<forall>s e. accepted (f s e)) \<and> 0 < m \<longrightarrow>
      (\<exists>res. fetch_historical_data f ts m start_date end_date = Some res \<and>
             (\<forall>x s. res = Inl (x, s) \<longrightarrow> x = OverflowError)))"
  using absorb_rows_dict[of d rows st] absorb_raw_list[of rows st] absorb_other_dict[of d st]
    absorb_falsy[of r st] fetch_historical_data_accepted[of f m end_date ts start_date]
    fetch_historical_data_no_page_error[of f m ts start_date end_date]
  by simp

theorem absorb_page_normalizes_witness:
  "map_of [(''total'', JInt 2), (''rows'', JList [JInt 1, JInt 2])] ''rows'' = Some (JList [JInt 1, JInt 2]) \<and>
   absorb_page (JDict [(''total'', JInt 2), (''rows'', JList [JInt 1, JInt 2])])
      \<lparr>current_start = 0, all_results = [JInt 0], calls = [], printed = []\<rparr> =
   absorb_page (JList [JInt 1, JInt 2])
      \<lparr>current_start = 0, all_results = [JInt 0], calls = [], printed = []\<rparr> \<and>
   absorb_page (JList [JInt 1, JInt 2])
      \<lparr>current_start = 0, all_results = [JInt 0], calls = [], printed = []\<rparr> =
   Inr \<lparr>current_start = 0, all_results = [JInt 0, JInt 1, JInt 2], calls = [], printed = []\<rparr> \<and>
   [(''code'', JInt 7)] \<noteq> [] \<and>
   (\<forall>rows. map_of [(''code'', JInt 7)] ''rows'' \<noteq> Some (JList rows)) \<and>
   absorb_page (JDict [(''code'', JInt 7)])
      \<lparr>current_start = 0, all_results = [JInt 0], calls = [], printed = []\<rparr> =
   Inr \<lparr>current_start = 0, all_results = [JInt 0], calls = [],
        printed = [UnexpectedFormat (JDict [(''code'', JInt 7)])]\<rparr> \<and>
   \<not> truthy JNone \<and>
   absorb_page JNone \<lparr>current_start = 0, all_results = [JInt 0], calls = [], printed = []\<rparr> =
   Inr \<lparr>current_start = 0, all_results = [JInt 0], calls = [], printed = []\<rparr> \<and>
   (\<forall>s e. accepted ((\<lambda>s e. JDict [(''code'', JInt 7)]) s e)) \<and> (0::int) < 7 \<and>
   us (datetime_of_us (20 * us_per_day)) + 7 * us_per_day \<le> datetime_max \<and>
   (\<exists>st'. fetch_historical_data (\<lambda>s e. JDict [(''code'', JInt 7)]) (\<lambda>d. d div 1000) 7
            (datetime_of_us 0) (datetime_of_us (20 * us_per_day)) = Some (Inr st'))"
  using absorb_page_normalizes[of "[(''total'', JInt 2), (''rows'', JList [JInt 1, JInt 2])]" "[JInt 1, JInt 2]"
              "\<lparr>current_start = 0, all_results = [JInt 0], calls = [], printed = []\<rparr>" JNone
              "\<lambda>s e. JDict [(''code'', JInt 7)]" 7 "datetime_of_us (20 * us_per_day)"
              "\<lambda>d. d div 1000" "datetime_of_us 0"]
        absorb_page_normalizes[of "[(''code'', JInt 7)]" "[]"
              "\<lparr>current_start = 0, all_results = [JInt 0], calls = [], printed = []\<rparr>" JNone
              "\<lambda>s e. JNone" 7 "datetime_of_us (20 * us_per_day)" "\<lambda>d. d div 1000" "datetime_of_us 0"]
  by (simp add: us_of_us datetime_max_def us_per_day_def)

theorem absorb_page_shape_counterexample:
  "absorb_page (JInt 5) \<lparr>current_start = 0, all_results = [], calls = [], printed = []\<rparr> = Inl TypeError \<and>
   fetch_historical_data (\<lambda>s e. JInt 5) (\<lambda>d. d div 1000) 7
      (datetime_of_us 0) (datetime_of_us (20 * us_per_day)) =
     Some (Inl (TypeError,
       \<lparr>current_start = 0, all_results = [], calls = [(0, 604800000)], printed = []\<rparr>)) \<and>
   absorb_page (JDict []) \<lparr>current_start = 0, all_results = [], calls = [], printed = []\<rparr> =
     Inr \<lparr>current_start = 0, all_results = [], calls = [], printed = []\<rparr>"
  by (simp add: absorb_page_def fetch_historical_data_def fetch_loop.simps plus_days_def
      timedelta_days_def datetime_add_def us_of_us datetime_max_def us_per_day_def)

section \<open>Properties of the endpoint wrappers\<close>

lemma keys_update: "fst ` set (AList.update k v al) = insert k (fst ` set al)"
  by (induction al) auto

lemma key_sent_params:
  "k \<in> fst ` set (sent_params (send_request h req c now m ep (Some ps))) \<longleftrightarrow>
     k = ''signature'' \<or> k = ''timestamp'' \<or> k \<in> fst ` set ps"
  by (simp add: sent_eq keys_update)

lemma key_set_if_int:
  "k' \<in> fst ` set (set_if_int k v ps) \<longleftrightarrow>
     (k' = k \<and> (\<exists>i. v = Some i \<and> i \<noteq> 0)) \<or> k' \<in> fst ` set ps"
  by (cases v) (simp_all add: set_if_int_def keys_update)

lemma key_set_if_str:
  "k' \<in> fst ` set (set_if_str k v ps) \<longleftrightarrow>
     (k' = k \<and> (\<exists>s. v = Some s \<and> s \<noteq> [])) \<or> k' \<in> fst ` set ps"
  by (cases v) (simp_all add: set_if_str_def keys_update)


text \<open>
  C9 (corrected). The claim: every endpoint wrapper leaves out of the request any optional
  parameter whose value is false in Python. It holds of the arguments that default to
  \<open>None\<close> and are guarded by \<open>if v:\<close>: \<open>coin\<close>, \<open>start_time\<close>, \<open>end_time\<close>,
  \<open>from_account_type\<close> and \<open>to_account_type\<close> are sent exactly when they are
  given and neither \<open>0\<close> nor empty, so \<open>start_time=0\<close>, \<open>end_time=0\<close> and
  \<open>coin=""\<close> send no parameter. The other optional arguments, \<open>limit\<close> of
  \<open>get_all_orders\<close> and \<open>account_type\<close> of \<open>get_sub_account_assets\<close>, are put
  into the request without a test, like the required ones: \<open>limit=0\<close> is sent as
  \<open>limit=0\<close>.
\<close>

theorem wrappers_omit_falsy:
  "(let sent = fst ` set (sent_params (get_deposit_history h req c now coin start_time end_time))
    in (''coin'' \<in> sent) = (\<exists>s. coin = Some s \<and> s \<noteq> []) \<and>
       (''startTime'' \<in> sent) = (\<exists>i. start_time = Some i \<and> i \<noteq> 0) \<and>
       (''endTime'' \<in> sent) = (\<exists>i. end_time = Some i \<and> i \<noteq> 0)) \<and>
   (let sent = fst ` set (sent_params (get_withdrawal_history h req c now coin start_time end_time))
    in (''coin'' \<in> sent) = (\<exists>s. coin = Some s \<and> s \<noteq> []) \<and>
       (''startTime'' \<in> sent) = (\<exists>i. start_time = Some i \<and> i \<noteq> 0) \<and>
       (''endTime'' \<in> sent) = (\<exists>i. end_time = Some i \<and> i \<noteq> 0)) \<and>
   (let sent = fst ` set (sent_params
                  (get_universal_transfer_history h req c now start_time end_time
                     from_account_type to_account_type))
    in (''startTime'' \<in> sent) = (\<exists>i. start_time = Some i \<and> i \<noteq> 0) \<and>
       (''endTime'' \<in> sent) = (\<exists>i. end_time = Some i \<and> i \<noteq> 0) \<and>
       (''fromAccountType'' \<in> sent) = (\<exists>s. from_account_type = Some s \<and> s \<noteq> []) \<and>
       (''toAccountType'' \<in> sent) = (\<exists>s. to_account_type = Some s \<and> s \<noteq> [])) \<and>
   (let sent = fst ` set (sent_params (get_all_orders h req c now symbol start_time end_time limit))
    in (''startTime'' \<in> sent) = (\<exists>i. start_time = Some i \<and> i \<noteq> 0) \<and>
       (''endTime'' \<in> sent) = (\<exists>i. end_time = Some i \<and> i \<noteq> 0) \<and>
       ''symbol'' \<in> sent \<and> ''limit'' \<in> sent) \<and>
   (let sent = fst ` set (sent_params (get_sub_account_assets h req c now sub_account account_type))
    in ''subAccount'' \<in> sent \<and> ''accountType'' \<in> sent)"
  by (simp add: Let_def get_deposit_history_def get_withdrawal_history_def
      get_universal_transfer_history_def get_all_orders_def get_sub_account_assets_def
      key_sent_params key_set_if_int key_set_if_str)

theorem wrappers_omit_falsy_witness:
  "''startTime'' \<notin> fst ` set (sent_params (get_deposit_history (\<lambda>k m. ''5f'') (\<lambda>m u h. RequestFailed)
       \<lparr>api_key = ''k'', secret_key = ''s''\<rparr> 1700 (Some '''') (Some 0) (Some 1699))) \<and>
   ''coin'' \<notin> fst ` set (sent_params (get_deposit_history (\<lambda>k m. ''5f'') (\<lambda>m u h. RequestFailed)
       \<lparr>api_key = ''k'', secret_key = ''s''\<rparr> 1700 (Some '''') (Some 0) (Some 1699))) \<and>
   ''endTime'' \<in> fst ` set (sent_params (get_deposit_history (\<lambda>k m. ''5f'') (\<lambda>m u h. RequestFailed)
       \<lparr>api_key = ''k'', secret_key = ''s''\<rparr> 1700 (Some '''') (Some 0) (Some 1699)))"
  using wrappers_omit_falsy[of "\<lambda>k m. ''5f''" "\<lambda>m u h. RequestFailed" "\<lparr>api_key = ''k'', secret_key = ''s''\<rparr>" 1700
      "Some ''''" "Some 0" "Some 1699"]
  by (simp add: Let_def)

theorem get_all_orders_limit_counterexample:
  "sent_params (get_all_orders (\<lambda>k m. ''5f'') (\<lambda>m u h. RequestFailed) \<lparr>api_key = ''k'', secret_key = ''s''\<rparr>
      1700 ''BTCUSDT'' None None 0) =
     [(''limit'', PInt 0), (''symbol'', PStr ''BTCUSDT''), (''timestamp'', PInt 1700),
      (''signature'', PStr ''5f'')] \<and>
   url (get_all_orders (\<lambda>k m. ''5f'') (\<lambda>m u h. RequestFailed) \<lparr>api_key = ''k'', secret_key = ''s''\<rparr>
      1700 ''BTCUSDT'' None None 0) =
     ''https://api.mexc.com/api/v3/allOrders?limit=0&symbol=BTCUSDT&timestamp=1700&signature=5f''"
  by (simp add: get_all_orders_def set_if_int_def send_request_def try_request_def Let_def
      generate_signature_def BASE_URL_def urlencode_def
      quote_plus_def quote_byte_def always_safe_def hex_digit_def str_int_def str_nat.simps digit_char_def)

end
